theory Spec2Isabelle
  imports Main
begin

section \<open>JavaScript values and strings\<close>

text \<open>
  The values that travel through the JSON bodies and the React state of the application.
  Numbers are the integers (question and option indices); objects and arrays are modelled
  by the records and lists below. On these values the strict equality \<open>===\<close> of
  JavaScript is equality of the datatype. A string is a list of characters, and a
  character is a code unit from U+0000 to U+00FF (ISO 8859-1): \<open>CHR 0xA0\<close> is the
  no-break space and \<open>CHR 0xE9\<close> the letter e with acute accent. Text with code units
  beyond U+00FF is outside the model.
\<close>

datatype jsval = JUndefined | JNull | JBool bool | JNum int | JStr string

text \<open>Truthiness, as \<open>!v\<close>, \<open>v || d\<close> and \<open>v ? a : b\<close> read it.\<close>

fun truthy :: "jsval \<Rightarrow> bool" where
  "truthy JUndefined = False"
| "truthy JNull = False"
| "truthy (JBool b) = b"
| "truthy (JNum n) = (n \<noteq> 0)"
| "truthy (JStr s) = (s \<noteq> [])"

text \<open>\<open>v || d\<close> on a string that may be missing: the empty string is falsy too.\<close>

definition orElse :: "string option \<Rightarrow> string \<Rightarrow> string" where
  "orElse v d = (case v of None \<Rightarrow> d | Some s \<Rightarrow> if s = [] then d else s)"

text \<open>
  The white space of \<open>String.prototype.trim\<close> and of the regular expression \<open>\s\<close>: the
  space, tab, line feed, vertical tab, form feed, carriage return and the no-break space
  (the other white space of JavaScript lies beyond U+00FF).
\<close>

definition isWhitespace :: "char \<Rightarrow> bool" where
  "isWhitespace c =
     (c \<in> set [CHR '' '', CHR 0x09, CHR 0x0A, CHR 0x0B, CHR 0x0C, CHR 0x0D, CHR 0xA0])"

definition trim :: "string \<Rightarrow> string" where
  "trim s = rev (dropWhile isWhitespace (rev (dropWhile isWhitespace s)))"

text \<open>
  \<open>String.prototype.toLowerCase\<close>, character by character: the letters A to Z, and the
  accented capitals U+00C0 to U+00DE (without the multiplication sign U+00D7), move to
  their small letters, 32 code units up; every other character stays.
\<close>

definition upperCaseLetters :: string where
  "upperCaseLetters =
     ''ABCDEFGHIJKLMNOPQRSTUVWXYZ'' @
     [CHR 0xC0, CHR 0xC1, CHR 0xC2, CHR 0xC3, CHR 0xC4, CHR 0xC5, CHR 0xC6, CHR 0xC7,
      CHR 0xC8, CHR 0xC9, CHR 0xCA, CHR 0xCB, CHR 0xCC, CHR 0xCD, CHR 0xCE, CHR 0xCF,
      CHR 0xD0, CHR 0xD1, CHR 0xD2, CHR 0xD3, CHR 0xD4, CHR 0xD5, CHR 0xD6,
      CHR 0xD8, CHR 0xD9, CHR 0xDA, CHR 0xDB, CHR 0xDC, CHR 0xDD, CHR 0xDE]"

definition lowerCaseLetters :: string where
  "lowerCaseLetters =
     ''abcdefghijklmnopqrstuvwxyz'' @
     [CHR 0xE0, CHR 0xE1, CHR 0xE2, CHR 0xE3, CHR 0xE4, CHR 0xE5, CHR 0xE6, CHR 0xE7,
      CHR 0xE8, CHR 0xE9, CHR 0xEA, CHR 0xEB, CHR 0xEC, CHR 0xED, CHR 0xEE, CHR 0xEF,
      CHR 0xF0, CHR 0xF1, CHR 0xF2, CHR 0xF3, CHR 0xF4, CHR 0xF5, CHR 0xF6,
      CHR 0xF8, CHR 0xF9, CHR 0xFA, CHR 0xFB, CHR 0xFC, CHR 0xFD, CHR 0xFE]"

definition toLowerChar :: "char \<Rightarrow> char" where
  "toLowerChar c =
     (case map_of (zip upperCaseLetters lowerCaseLetters) c of
        None \<Rightarrow> c
      | Some l \<Rightarrow> l)"

definition toLowerCase :: "string \<Rightarrow> string" where
  "toLowerCase s = map toLowerChar s"

definition startsWith :: "string \<Rightarrow> string \<Rightarrow> bool" where
  "startsWith s p = (take (length p) s = p)"

text \<open>\<open>s.includes(sub)\<close>: \<open>sub\<close> starts at some position of \<open>s\<close>.\<close>

fun includesStr :: "string \<Rightarrow> string \<Rightarrow> bool" where
  "includesStr [] sub = (sub = [])"
| "includesStr (c # cs) sub = (startsWith (c # cs) sub \<or> includesStr cs sub)"

text \<open>\<open>xs.join(sep)\<close>.\<close>

fun joinWith :: "string \<Rightarrow> string list \<Rightarrow> string" where
  "joinWith sep [] = []"
| "joinWith sep [x] = x"
| "joinWith sep (x # y # ys) = x @ sep @ joinWith sep (y # ys)"

text \<open>A non-negative number in a template literal: its decimal digits.\<close>

definition digit :: "nat \<Rightarrow> char" where
  "digit n = ''0123456789'' ! (n mod 10)"

function decimal :: "nat \<Rightarrow> string" where
  "decimal n = (if n < 10 then [digit n] else decimal (n div 10) @ [digit n])"
  by pat_completeness auto
termination
  by (relation "measure (\<lambda>n. n)") auto

section \<open>The JSON bodies exchanged by the panels and the server\<close>

text \<open>A transcript entry \<open>{role, content}\<close>; a member that is missing reads \<open>undefined\<close>.\<close>

record chat_message =
  role :: jsval
  content :: jsval

text \<open>
  A question as the generated JSON delivers it. \<open>correctAnswer\<close> is whatever the JSON
  holds in that member (\<open>JUndefined\<close> when the member is missing).
\<close>

record question =
  questionText :: string
  options :: "string list"
  correctAnswer :: jsval

record search_result =
  title :: string
  link :: string
  snippet :: string

text \<open>
  The bodies the server sends: \<open>{error, details}\<close> (\<open>details\<close> may be missing),
  \<open>{response}\<close>, \<open>{results}\<close>, and the parsed quiz, of which the \<open>questions\<close> member is
  kept (\<open>None\<close> when the generated JSON has none).
\<close>

datatype body =
    ErrorBody string "string option"
  | ChatBody string
  | SearchBody "search_result list"
  | QuizBody "question list option"

record http_response =
  status :: nat
  body :: body

section \<open>Server (src/api/server.js)\<close>

subsection \<open>Configuration\<close>

text \<open>
  \<^verbatim>\<open>
  const hasGeminiKey = !!process.env.GEMINI_API_KEY
  const geminiApiKey = hasGeminiKey ? process.env.GEMINI_API_KEY.trim() : null
  const genAI = hasGeminiKey ? new GoogleGenerativeAI(geminiApiKey) : null
  \<close>
  The environment holds the variable or not; the client object is represented by the key
  it was built with.
\<close>

record env =
  GEMINI_API_KEY :: "string option"

definition hasGeminiKey :: "env \<Rightarrow> bool" where
  "hasGeminiKey e = (case GEMINI_API_KEY e of None \<Rightarrow> False | Some k \<Rightarrow> k \<noteq> [])"

definition genAI :: "env \<Rightarrow> string option" where
  "genAI e = (if hasGeminiKey e then map_option trim (GEMINI_API_KEY e) else None)"

definition STUDY_CHAT_PROMPT :: string where
  "STUDY_CHAT_PROMPT = ''You are a helpful AI study partner. Provide clear, educational explanations to help students learn. Be concise but thorough.''"

definition QUIZ_INSTRUCTIONS :: string where
  "QUIZ_INSTRUCTIONS = ''You are a quiz generator. Generate exactly 5 multiple-choice questions with 4 options each. Respond ONLY with valid JSON in this exact format: {\"questions\": [{\"question\": \"...\", \"options\": [\"A\", \"B\", \"C\", \"D\"], \"correctAnswer\": 0}]} where correctAnswer is the index (0-3) of the correct option.''"

subsection \<open>buildConversation\<close>

text \<open>A turn \<open>{role, parts: [{text}]}\<close> of the generative API.\<close>

record turn =
  turn_role :: string
  turn_text :: jsval

text \<open>
  \<^verbatim>\<open>
  messages.forEach((message) => {
    if (!message?.content) return
    const role = message.role === 'assistant' ? 'model' : 'user'
    conversation.push({ role, parts: [{ text: message.content }] })
  })
  \<close>
  An entry of the array is \<open>None\<close> when it is \<open>null\<close> (or anything that is not an
  object), for which \<open>message?.content\<close> is \<open>undefined\<close>.
\<close>

fun forEach_push :: "turn list \<Rightarrow> chat_message option list \<Rightarrow> turn list" where
  "forEach_push conversation [] = conversation"
| "forEach_push conversation (None # ms) = forEach_push conversation ms"
| "forEach_push conversation (Some message # ms) =
     (if \<not> truthy (content message) then forEach_push conversation ms
      else forEach_push
             (conversation @
                [\<lparr>turn_role = (if role message = JStr ''assistant'' then ''model'' else ''user''),
                  turn_text = content message\<rparr>])
             ms)"

definition buildConversation :: "chat_message option list \<Rightarrow> bool \<Rightarrow> turn list" where
  "buildConversation messages includePrompt =
     forEach_push
       (if includePrompt then [\<lparr>turn_role = ''user'', turn_text = JStr STUDY_CHAT_PROMPT\<rparr>] else [])
       messages"

subsection \<open>createErrorMessage\<close>

definition INVALID_KEY_MESSAGE :: string where
  "INVALID_KEY_MESSAGE = ''Invalid Gemini API key. Please update GEMINI_API_KEY in your .env file from https://aistudio.google.com/app/apikey''"

definition QUOTA_MESSAGE :: string where
  "QUOTA_MESSAGE = ''Gemini API quota exceeded. Please review your Google AI Studio usage and billing.''"

definition RATE_LIMIT_MESSAGE :: string where
  "RATE_LIMIT_MESSAGE = ''Gemini rate limit reached. Please wait a moment and try again.''"

text \<open>
  The argument is \<open>error?.message\<close>: \<open>None\<close> when there is no message.
  \<^verbatim>\<open>
  const errorMessage = error?.message || 'Gemini API request failed.'
  const lower = errorMessage.toLowerCase()
  if (lower.includes('permission') || lower.includes('unauthorized') || lower.includes('api key')) ...
  if (lower.includes('quota') || lower.includes('billing') || lower.includes('exceeded')) ...
  if (lower.includes('rate limit')) ...
  return errorMessage
  \<close>
\<close>

definition createErrorMessage :: "string option \<Rightarrow> string" where
  "createErrorMessage error =
     (let errorMessage = orElse error ''Gemini API request failed.'';
          lower = toLowerCase errorMessage
      in if includesStr lower ''permission'' \<or> includesStr lower ''unauthorized'' \<or>
            includesStr lower ''api key''
         then INVALID_KEY_MESSAGE
         else if includesStr lower ''quota'' \<or> includesStr lower ''billing'' \<or>
                 includesStr lower ''exceeded''
         then QUOTA_MESSAGE
         else if includesStr lower ''rate limit'' then RATE_LIMIT_MESSAGE
         else errorMessage)"

subsection \<open>Normalising a search hit\<close>

text \<open>\<open>s.replace(/\s+/g, '_')\<close>: every maximal run of white space becomes one underscore.\<close>

function replaceWhitespace :: "string \<Rightarrow> string" where
  "replaceWhitespace [] = []"
| "replaceWhitespace (c # cs) =
     (if isWhitespace c then CHR ''_'' # replaceWhitespace (dropWhile isWhitespace cs)
      else c # replaceWhitespace cs)"
  by pat_completeness auto
termination
  by (relation "measure length") (auto simp: less_Suc_eq_le length_dropWhile_le)

text \<open>
  \<open>encodeURIComponent\<close>, character by character: the letters A to Z and a to z, the
  digits and \<open>- _ . ! ~ * ' ( )\<close> stay; every other character is written as the octets
  of its UTF-8 encoding (one octet below U+0080, two from U+0080 to U+00FF), each octet
  as \<open>%\<close> and its two upper-case hexadecimal digits.
\<close>

definition isUnreserved :: "char \<Rightarrow> bool" where
  "isUnreserved c =
     (c \<in> set ''ABCDEFGHIJKLMNOPQRSTUVWXYZabcdefghijklmnopqrstuvwxyz0123456789-_.!~*'()'')"

definition hexDigit :: "nat \<Rightarrow> char" where
  "hexDigit n = ''0123456789ABCDEF'' ! (n mod 16)"

definition utf8Octets :: "nat \<Rightarrow> nat list" where
  "utf8Octets codePoint =
     (if codePoint < 128 then [codePoint]
      else [192 + codePoint div 64, 128 + codePoint mod 64])"

definition percentEncode :: "char \<Rightarrow> string" where
  "percentEncode c =
     (if isUnreserved c then [c]
      else concat (map (\<lambda>octet. [CHR ''%'', hexDigit (octet div 16), hexDigit octet])
                    (utf8Octets (of_char c))))"

definition encodeURIComponent :: "string \<Rightarrow> string" where
  "encodeURIComponent s = concat (map percentEncode s)"

text \<open>
  One match of \<open>/<\/?span[^>]*>/\<close> at the start of the string: \<open><\<close>, an optional
  \<open>/\<close>, \<open>span\<close>, then everything up to and including the next \<open>>\<close>. The result is the
  text after the match; there is no match when no \<open>>\<close> follows.
\<close>

definition matchSpanTag :: "string \<Rightarrow> string option" where
  "matchSpanTag s =
     (case s of
        [] \<Rightarrow> None
      | c # r \<Rightarrow>
          if c = CHR ''<'' then
            (let r' = (case r of [] \<Rightarrow> r | d # r2 \<Rightarrow> if d = CHR ''/'' then r2 else r)
             in if startsWith r' ''span'' then
                  (case dropWhile (\<lambda>x. x \<noteq> CHR ''>'') (drop 4 r') of
                     [] \<Rightarrow> None
                   | g # rest \<Rightarrow> Some rest)
                else None)
          else None)"

lemma matchSpanTag_shorter: "matchSpanTag s = Some rest \<Longrightarrow> length rest < length s"
proof -
  assume m: "matchSpanTag s = Some rest"
  have d: "dropWhile P xs = g # ys \<Longrightarrow> length ys < length xs" for P and xs ys :: string and g
    using length_dropWhile_le [of P xs] by simp
  show ?thesis
    using m
    by (auto simp: matchSpanTag_def Let_def split: list.splits if_splits dest!: d)
qed

text \<open>\<open>s.replace(/<\/?span[^>]*>/g, '')\<close>: the matches are found from left to right and dropped.\<close>

function stripSpanTags :: "string \<Rightarrow> string" where
  "stripSpanTags [] = []"
| "stripSpanTags (c # cs) =
     (case matchSpanTag (c # cs) of
        Some rest \<Rightarrow> stripSpanTags rest
      | None \<Rightarrow> c # stripSpanTags cs)"
  by pat_completeness auto
termination
  by (relation "measure length") (auto dest: matchSpanTag_shorter)

text \<open>A hit of the encyclopedia's search list; \<open>snippet\<close> may be missing.\<close>

record search_hit =
  hit_title :: string
  hit_snippet :: "string option"

definition WIKI_ARTICLE_PREFIX :: string where
  "WIKI_ARTICLE_PREFIX = ''https://en.wikipedia.org/wiki/''"

text \<open>
  \<^verbatim>\<open>
  (item) => ({
    title: item.title,
    link: `https://en.wikipedia.org/wiki/${encodeURIComponent(item.title.replace(/\s+/g, '_'))}`,
    snippet: item.snippet ? item.snippet.replace(/<\/?span[^>]*>/g, '') : '',
  })
  \<close>
\<close>

definition normalizeHit :: "search_hit \<Rightarrow> search_result" where
  "normalizeHit item =
     \<lparr>title = hit_title item,
      link = WIKI_ARTICLE_PREFIX @ encodeURIComponent (replaceWhitespace (hit_title item)),
      snippet = (case hit_snippet item of
                   None \<Rightarrow> []
                 | Some s \<Rightarrow> if s = [] then [] else stripSpanTags s)\<rparr>"

subsection \<open>The endpoints\<close>

text \<open>
  A handler's run: the response it sends and the calls it made to the generative service
  or the encyclopedia, in order.
\<close>

datatype upstream_call = GenerateChat "turn list" | GenerateQuiz string | WikiSearch string

record handler_run =
  response :: http_response
  upstream_calls :: "upstream_call list"

text \<open>
  The generative service is a function of the request: it fails with an error
  (\<open>Inl\<close> of its \<open>message\<close>, if it has one) or gives the text of the response.
\<close>

type_synonym generator = "upstream_call \<Rightarrow> string option + string"

text \<open>
  \<open>POST /api/chat\<close>. \<open>messages\<close> is \<open>None\<close> when the body has no such member; then
  \<open>messages.forEach\<close> raises a TypeError, whose message (the engine's) is \<open>typeError\<close>,
  before the service is called.
\<close>

definition chat_handler ::
    "env \<Rightarrow> string \<Rightarrow> generator \<Rightarrow> chat_message option list option \<Rightarrow> handler_run" where
  "chat_handler e typeError generateContent messages =
     (if \<not> hasGeminiKey e then
        \<lparr>response = \<lparr>status = 503,
                     body = ErrorBody ''Gemini is not configured''
                              (Some ''Add GEMINI_API_KEY to your .env to enable chat.'')\<rparr>,
         upstream_calls = []\<rparr>
      else
        (case (genAI e, messages) of
           (Some client, Some ms) \<Rightarrow>
             (let call = GenerateChat (buildConversation ms True) in
              case generateContent call of
                Inr text \<Rightarrow>
                  \<lparr>response = \<lparr>status = 200, body = ChatBody text\<rparr>, upstream_calls = [call]\<rparr>
              | Inl error \<Rightarrow>
                  \<lparr>response = \<lparr>status = 500,
                               body = ErrorBody ''Failed to get response from Gemini''
                                        (Some (createErrorMessage error))\<rparr>,
                   upstream_calls = [call]\<rparr>)
         | _ \<Rightarrow>
             \<lparr>response = \<lparr>status = 500,
                          body = ErrorBody ''Failed to get response from Gemini''
                                   (Some (createErrorMessage (Some typeError)))\<rparr>,
              upstream_calls = []\<rparr>))"

text \<open>
  \<open>POST /api/generate-quiz\<close>. The handler starts with \<open>genAI.getGenerativeModel(...)\<close>
  inside its \<open>try\<close>: when \<open>genAI\<close> is \<open>null\<close> that raises a TypeError, whose message
  (the engine's) is \<open>typeError\<close>. \<open>topic\<close> is \<open>None\<close> when the body has no such member,
  and prints as \<open>undefined\<close> in the prompt. \<open>parse\<close> is \<open>JSON.parse\<close>: the message of its
  SyntaxError, or the parsed quiz.
\<close>

definition generate_quiz_handler ::
    "env \<Rightarrow> string \<Rightarrow> generator \<Rightarrow> (string \<Rightarrow> string option + question list option) \<Rightarrow>
     string option \<Rightarrow> handler_run" where
  "generate_quiz_handler e typeError generateContent parse topic =
     (case genAI e of
        None \<Rightarrow>
          \<lparr>response = \<lparr>status = 500,
                       body = ErrorBody ''Failed to generate quiz''
                                (Some (createErrorMessage (Some typeError)))\<rparr>,
           upstream_calls = []\<rparr>
      | Some client \<Rightarrow>
          (let quizPrompt =
                 QUIZ_INSTRUCTIONS @ ''\<newline>\<newline>Topic: '' @
                 (case topic of None \<Rightarrow> ''undefined'' | Some t \<Rightarrow> t) @
                 ''\<newline>\<newline>Remember: respond with raw JSON only.'';
               call = GenerateQuiz quizPrompt
           in case generateContent call of
                Inl error \<Rightarrow>
                  \<lparr>response = \<lparr>status = 500,
                               body = ErrorBody ''Failed to generate quiz''
                                        (Some (createErrorMessage error))\<rparr>,
                   upstream_calls = [call]\<rparr>
              | Inr text \<Rightarrow>
                  (case parse text of
                     Inl error \<Rightarrow>
                       \<lparr>response = \<lparr>status = 500,
                                    body = ErrorBody ''Failed to generate quiz''
                                             (Some (createErrorMessage error))\<rparr>,
                        upstream_calls = [call]\<rparr>
                   | Inr quizData \<Rightarrow>
                       \<lparr>response = \<lparr>status = 200, body = QuizBody quizData\<rparr>,
                        upstream_calls = [call]\<rparr>)))"

text \<open>
  What the call to the encyclopedia gives: \<open>fetch\<close> or \<open>response.json()\<close> fails (with the
  error's message, if any), or there is a reply: \<open>response.ok\<close>, \<open>data?.error?.message\<close>
  and \<open>data?.query?.search\<close>.
\<close>

datatype wiki_outcome =
    WikiFailed "string option"
  | WikiReplied bool "string option" "search_hit list option"

text \<open>
  \<open>GET /api/search\<close>. \<open>q\<close> is the query parameter, \<open>None\<close> when missing.
  \<^verbatim>\<open>
  const query = (req.query.q || '').toString().trim()
  if (!query) return res.status(400).json({ error: 'Missing query parameter q' })
  if (!hasGeminiKey) return res.status(503).json({ ... })
  try {
    ... fetch, response.json() ...
    if (!response.ok) throw new Error(data?.error?.message || 'Search request failed')
    const results = data?.query?.search?.map(...) || []
    res.json({ results })
  } catch (error) {
    res.status(500).json({ error: 'Failed to perform search',
                           details: error?.message || 'Search request failed' })
  }
  \<close>
\<close>

definition search_handler :: "env \<Rightarrow> (string \<Rightarrow> wiki_outcome) \<Rightarrow> string option \<Rightarrow> handler_run" where
  "search_handler e wikipedia q =
     (let query = trim (orElse q [])
      in if query = [] then
           \<lparr>response = \<lparr>status = 400, body = ErrorBody ''Missing query parameter q'' None\<rparr>,
            upstream_calls = []\<rparr>
         else if \<not> hasGeminiKey e then
           \<lparr>response = \<lparr>status = 503,
                        body = ErrorBody ''Gemini is not configured''
                                 (Some ''Add GEMINI_API_KEY to your .env to enable quiz generation.'')\<rparr>,
            upstream_calls = []\<rparr>
         else
           (case wikipedia query of
              WikiFailed error \<Rightarrow>
                \<lparr>response = \<lparr>status = 500,
                             body = ErrorBody ''Failed to perform search''
                                      (Some (orElse error ''Search request failed''))\<rparr>,
                 upstream_calls = [WikiSearch query]\<rparr>
            | WikiReplied ok_flag errorMessage hits \<Rightarrow>
                if \<not> ok_flag then
                  \<lparr>response = \<lparr>status = 500,
                               body = ErrorBody ''Failed to perform search''
                                        (Some (orElse (Some (orElse errorMessage ''Search request failed''))
                                                 ''Search request failed''))\<rparr>,
                   upstream_calls = [WikiSearch query]\<rparr>
                else
                  \<lparr>response = \<lparr>status = 200,
                               body = SearchBody
                                        (case hits of None \<Rightarrow> [] | Some hs \<Rightarrow> map normalizeHit hs)\<rparr>,
                   upstream_calls = [WikiSearch query]\<rparr>))"

section \<open>Chat panel (StudyChat)\<close>

record chat_state =
  messages :: "chat_message list"
  input :: string
  isLoading :: bool

text \<open>
  The two requests the panel issues. The search query travels through
  \<open>encodeURIComponent\<close> and the server's decoding of the query string, and arrives as
  it was; the chat request carries the transcript.
\<close>

datatype request = GetSearch string | PostChat "chat_message list"

text \<open>\<open>fetch\<close> rejects (with the error's message) or delivers a response.\<close>

datatype fetch_outcome = FetchRejected string | FetchReplied http_response

definition ok :: "http_response \<Rightarrow> bool" where
  "ok r = (200 \<le> status r \<and> status r \<le> 299)"

text \<open>\<open>errorData.details || errorData.error || fallback\<close>.\<close>

definition errorText :: "body \<Rightarrow> string \<Rightarrow> string" where
  "errorText b fallback =
     (case b of
        ErrorBody err details \<Rightarrow> orElse details (orElse (Some err) fallback)
      | _ \<Rightarrow> fallback)"

text \<open>
  \<^verbatim>\<open>
  data.results?.length
    ? data.results.map((r, idx) => `${idx + 1}. ${r.title}\n${r.link}\n${r.snippet || ''}`)
                  .join('\n\n')
    : 'No results found.'
  \<close>
\<close>

definition formatResult :: "nat \<times> search_result \<Rightarrow> string" where
  "formatResult p =
     (case p of (idx, r) \<Rightarrow>
        decimal (idx + 1) @ ''. '' @ title r @ ''\<newline>'' @ link r @ ''\<newline>'' @ snippet r)"

definition formatResults :: "body \<Rightarrow> string" where
  "formatResults b =
     (case b of
        SearchBody (r # rs) \<Rightarrow>
          joinWith ''\<newline>\<newline>'' (map formatResult (zip [0..<length (r # rs)] (r # rs)))
      | _ \<Rightarrow> ''No results found.'')"

text \<open>\<open>data.response\<close>.\<close>

definition responseField :: "body \<Rightarrow> jsval" where
  "responseField b = (case b of ChatBody text \<Rightarrow> JStr text | _ \<Rightarrow> JUndefined)"

text \<open>
  \<^verbatim>\<open>
  const isSearch = input.trim().toLowerCase().startsWith('/search ')
  const searchQuery = isSearch ? input.trim().slice(8).trim() : ''
  \<close>
\<close>

definition isSearchInput :: "string \<Rightarrow> bool" where
  "isSearchInput inp = startsWith (toLowerCase (trim inp)) ''/search ''"

definition searchQueryOf :: "string \<Rightarrow> string" where
  "searchQueryOf inp = (if isSearchInput inp then trim (drop 8 (trim inp)) else [])"

text \<open>
  The body of the \<open>try\<close> block: the requests it issued, and either the message of the
  error it threw (\<open>Inl\<close>) or the assistant entry it appends (\<open>Inr\<close>). \<open>transcript\<close> is
  the \<open>messages\<close> of the render in which the handler was created.
\<close>

definition tryBlock ::
    "chat_message list \<Rightarrow> chat_message \<Rightarrow> bool \<Rightarrow> string \<Rightarrow> (request \<Rightarrow> fetch_outcome) \<Rightarrow>
     request list \<times> (string + chat_message)" where
  "tryBlock transcript userMessage isSearch searchQuery fetch =
     (if isSearch then
        (if searchQuery = [] then ([], Inl ''Please provide a search query after /search'')
         else
           (let req = GetSearch searchQuery in
            case fetch req of
              FetchRejected err \<Rightarrow> ([req], Inl err)
            | FetchReplied resp \<Rightarrow>
                if \<not> ok resp then ([req], Inl (errorText (body resp) ''Search failed''))
                else
                  ([req],
                   Inr \<lparr>role = JStr ''assistant'',
                        content = JStr (''Here are the top results for \"'' @ searchQuery @
                                        ''\":\<newline>\<newline>'' @ formatResults (body resp))\<rparr>)))
      else
        (let req = PostChat (map (\<lambda>msg. \<lparr>role = role msg, content = content msg\<rparr>)
                               (transcript @ [userMessage])) in
         case fetch req of
           FetchRejected err \<Rightarrow> ([req], Inl err)
         | FetchReplied resp \<Rightarrow>
             if \<not> ok resp then ([req], Inl (errorText (body resp) ''Failed to get response''))
             else ([req], Inr \<lparr>role = JStr ''assistant'', content = responseField (body resp)\<rparr>)))"

text \<open>
  One run of \<open>handleSubmit\<close>: it returns at once (\<open>Ignored\<close>), or it runs: \<open>pending\<close> is
  the state while the request is in flight, \<open>sent\<close> the requests issued, \<open>settled\<close> the
  state when the handler has finished.
  \<^verbatim>\<open>
  if (!input.trim() || isLoading) return
  const userMessage = { role: 'user', content: input }
  ...
  setMessages((prev) => [...prev, userMessage]); setInput(''); setIsLoading(true)
  try { ... } catch (error) {
    setMessages((prev) => [...prev, { role: 'assistant',
      content: `Sorry, I encountered an error: ${error.message}. Please check your Gemini API key and try again.` }])
  } finally { setIsLoading(false) }
  \<close>
\<close>

datatype submit_run =
    Ignored
  | Ran (pending: chat_state) (sent: "request list") (settled: chat_state)

definition chat_handleSubmit :: "chat_state \<Rightarrow> (request \<Rightarrow> fetch_outcome) \<Rightarrow> submit_run" where
  "chat_handleSubmit st fetch =
     (if trim (input st) = [] \<or> isLoading st then Ignored
      else
        (let userMessage = \<lparr>role = JStr ''user'', content = JStr (input st)\<rparr>;
             isSearch = isSearchInput (input st);
             searchQuery = searchQueryOf (input st);
             inFlight = \<lparr>messages = messages st @ [userMessage], input = [], isLoading = True\<rparr>;
             tried = tryBlock (messages st) userMessage isSearch searchQuery fetch;
             appended =
               (case snd tried of
                  Inr reply \<Rightarrow> reply
                | Inl err \<Rightarrow>
                    \<lparr>role = JStr ''assistant'',
                     content = JStr (''Sorry, I encountered an error: '' @ err @
                                     ''. Please check your Gemini API key and try again.'')\<rparr>)
         in Ran inFlight (fst tried)
              (inFlight\<lparr>messages := messages inFlight @ [appended], isLoading := False\<rparr>)))"

section \<open>Quiz panel (src/components/QuizGenerator.jsx)\<close>

text \<open>
  The component's state: one field per \<open>useState\<close>. \<open>questions\<close> is \<open>None\<close> for
  \<open>null\<close>; \<open>answers\<close> is the object keyed by question index; \<open>score\<close> is \<open>None\<close> for
  \<open>null\<close>.
\<close>

record quiz_state =
  topic :: string
  questions :: "question list option"
  answers :: "nat \<rightharpoonup> nat"
  submitted :: bool
  score :: "nat option"
  isGenerating :: bool

text \<open>\<open>answers[index]\<close>: the stored option index, or \<open>undefined\<close> for a missing key.\<close>

definition answerAt :: "(nat \<rightharpoonup> nat) \<Rightarrow> nat \<Rightarrow> jsval" where
  "answerAt a i = (case a i of None \<Rightarrow> JUndefined | Some k \<Rightarrow> JNum (int k))"

text \<open>
  \<^verbatim>\<open>
  const handleAnswerChange = (questionIndex, answerIndex) => {
    if (submitted) return
    setAnswers((prev) => ({ ...prev, [questionIndex]: answerIndex }))
  }
  \<close>
\<close>

definition handleAnswerChange :: "quiz_state \<Rightarrow> nat \<Rightarrow> nat \<Rightarrow> quiz_state" where
  "handleAnswerChange s questionIndex answerIndex =
     (if submitted s then s
      else s\<lparr>answers := (answers s)(questionIndex \<mapsto> answerIndex)\<rparr>)"

text \<open>
  The loop of \<open>handleSubmit\<close>:
  \<^verbatim>\<open>
  let correctCount = 0
  questions.forEach((q, index) => {
    if (answers[index] === q.correctAnswer) { correctCount++ }
  })
  \<close>
  with the running index and the counter as arguments.
\<close>

fun countCorrect :: "(nat \<rightharpoonup> nat) \<Rightarrow> question list \<Rightarrow> nat \<Rightarrow> nat \<Rightarrow> nat" where
  "countCorrect a [] index correctCount = correctCount"
| "countCorrect a (q # qs) index correctCount =
     countCorrect a qs (Suc index)
       (if answerAt a index = correctAnswer q then Suc correctCount else correctCount)"

text \<open>
  \<^verbatim>\<open>
  const handleSubmit = () => {
    if (!questions || submitted) return
    ... the loop ...
    setScore(correctCount)
    setSubmitted(true)
  }
  \<close>
\<close>

definition quiz_handleSubmit :: "quiz_state \<Rightarrow> quiz_state" where
  "quiz_handleSubmit s =
     (case questions s of
        None \<Rightarrow> s
      | Some qs \<Rightarrow>
          if submitted s then s
          else s\<lparr>score := Some (countCorrect (answers s) qs 0 0), submitted := True\<rparr>)"

section \<open>Specification-side definitions and example inputs\<close>

text \<open>The turn that one transcript entry becomes, and the turn of the system instruction.\<close>

definition turnOf :: "chat_message \<Rightarrow> turn" where
  "turnOf m = \<lparr>turn_role = (if role m = JStr ''assistant'' then ''model'' else ''user''),
               turn_text = content m\<rparr>"

definition promptTurn :: turn where
  "promptTurn = \<lparr>turn_role = ''user'', turn_text = JStr STUDY_CHAT_PROMPT\<rparr>"

text \<open>
  The error classification in the specification's words: an ordered list of rules
  (substrings, remediation), evaluated top to bottom on the lower-cased message; the
  first rule with a substring that occurs wins, and without a match the message is
  passed through.
\<close>

definition classificationRules :: "(string list \<times> string) list" where
  "classificationRules =
     [([''permission'', ''unauthorized'', ''api key''], INVALID_KEY_MESSAGE),
      ([''quota'', ''billing'', ''exceeded''], QUOTA_MESSAGE),
      ([''rate limit''], RATE_LIMIT_MESSAGE)]"

definition firstMatch :: "string \<Rightarrow> string" where
  "firstMatch m =
     (case find (\<lambda>rule. list_ex (includesStr (toLowerCase m)) (fst rule)) classificationRules of
        Some rule \<Rightarrow> snd rule
      | None \<Rightarrow> m)"

text \<open>A network on which every request fails.\<close>

definition fetch_unreachable :: "request \<Rightarrow> fetch_outcome" where
  "fetch_unreachable req = FetchRejected ''Failed to fetch''"

text \<open>A server that answers every chat request with the same text.\<close>

definition fetch_hello :: "request \<Rightarrow> fetch_outcome" where
  "fetch_hello req = FetchReplied \<lparr>status = 200, body = ChatBody ''Hello''\<rparr>"

definition example_idle :: chat_state where
  "example_idle = \<lparr>messages = [\<lparr>role = JStr ''assistant'', content = JStr ''Hi''\<rparr>],
                    input = ''What is DNS?'', isLoading = False\<rparr>"

text \<open>The assistant entry for a search without results.\<close>

definition noResultsText :: "string \<Rightarrow> string" where
  "noResultsText searchQuery =
     ''Here are the top results for \"'' @ searchQuery @ ''\":\<newline>\<newline>'' @ ''No results found.''"

text \<open>
  A configured server in front of an encyclopedia that finds nothing, and the panel's
  network connected to its search endpoint.
\<close>

definition example_env :: env where
  "example_env = \<lparr>GEMINI_API_KEY = Some ''key''\<rparr>"

definition wikipedia_no_hits :: "string \<Rightarrow> wiki_outcome" where
  "wikipedia_no_hits query = WikiReplied True None (Some [])"

definition fetch_from_server :: "request \<Rightarrow> fetch_outcome" where
  "fetch_from_server req =
     (case req of
        GetSearch q \<Rightarrow> FetchReplied (response (search_handler example_env wikipedia_no_hits (Some q)))
      | PostChat ms \<Rightarrow> FetchRejected ''Failed to fetch'')"

definition example_searching :: chat_state where
  "example_searching = \<lparr>messages = [], input = ''/search zq'', isLoading = False\<rparr>"







text \<open>
  A title read as words and gaps: text without white space, then gaps (runs of white
  space) each followed by a word, then white space up to the end. \<open>underscored\<close> is the
  title with every gap, and the white space at the end, replaced by one underscore.
\<close>

definition isWord :: "string \<Rightarrow> bool" where
  "isWord w = (w \<noteq> [] \<and> list_all (\<lambda>c. \<not> isWhitespace c) w)"

definition isGap :: "string \<Rightarrow> bool" where
  "isGap g = (g \<noteq> [] \<and> list_all isWhitespace g)"

definition titleOf :: "string \<Rightarrow> (string \<times> string) list \<Rightarrow> string \<Rightarrow> string" where
  "titleOf w gs trailing = w @ concat (map (\<lambda>(g, v). g @ v) gs) @ trailing"

definition titleParts :: "string \<Rightarrow> (string \<times> string) list \<Rightarrow> string \<Rightarrow> bool" where
  "titleParts w gs trailing =
     (list_all (\<lambda>c. \<not> isWhitespace c) w \<and> list_all (\<lambda>(g, v). isGap g \<and> isWord v) gs \<and>
      list_all isWhitespace trailing)"











text \<open>A state for the examples: two questions, the first answered right, the second not answered.\<close>

definition example_quiz :: "question list" where
  "example_quiz =
     [\<lparr>questionText = ''Q1'', options = [''a'', ''b'', ''c'', ''d''], correctAnswer = JNum 2\<rparr>,
      \<lparr>questionText = ''Q2'', options = [''a'', ''b'', ''c'', ''d''], correctAnswer = JNum 0\<rparr>]"

definition example_ready :: quiz_state where
  "example_ready =
     \<lparr>topic = ''Nets'', questions = Some example_quiz, answers = [0 \<mapsto> 2, 5 \<mapsto> 0],
      submitted = False, score = None, isGenerating = False\<rparr>"

definition example_submitted :: quiz_state where
  "example_submitted = quiz_handleSubmit example_ready"


section \<open>Building the conversation\<close>

lemma forEach_push_filter:
  "forEach_push conv (map Some T) = conv @ map turnOf (filter (\<lambda>m. truthy (content m)) T)"
  by (induction T arbitrary: conv) (simp_all add: turnOf_def)

lemma forEach_push_append:
  "forEach_push conv (xs @ ys) = forEach_push (forEach_push conv xs) ys"
  by (induction conv xs rule: forEach_push.induct) simp_all

lemma forEach_push_length: "length (forEach_push conv ms) \<le> length conv + length ms"
proof (induction conv ms rule: forEach_push.induct)
  case (3 conversation message ms)
  then show ?case by (cases "truthy (content message)") simp_all
qed simp_all

text \<open>
  C6, as amended. For every transcript, the conversation built for the generative API
  begins with the fixed study-partner instruction as a user-role turn, followed by one
  turn for each transcript entry whose content is truthy (not missing, null or empty),
  in order; an entry with role \<open>assistant\<close> becomes a model-role turn and every other
  entry a user-role turn.
\<close>

theorem conversation_of_transcript:
  "buildConversation (map Some T) True =
     promptTurn # map turnOf (filter (\<lambda>m. truthy (content m)) T)"
  by (simp add: buildConversation_def forEach_push_filter promptTurn_def)

text \<open>
  C6 as stated fails: a transcript of two entries, the second with the empty string as
  content, gives the instruction and one turn, not two.
\<close>

theorem conversation_drops_empty_entry:
  "buildConversation [Some \<lparr>role = JStr ''user'', content = JStr ''hi''\<rparr>,
                      Some \<lparr>role = JStr ''assistant'', content = JStr ''''\<rparr>] True =
     [\<lparr>turn_role = ''user'', turn_text = JStr STUDY_CHAT_PROMPT\<rparr>,
      \<lparr>turn_role = ''user'', turn_text = JStr ''hi''\<rparr>]"
  by (simp add: buildConversation_def)

text \<open>
  C10. A transcript entry whose content is missing, null or the empty string is left out
  of the conversation: the result is that of the transcript without the entry, so the
  conversation has fewer turns after the instruction than the transcript has messages.
\<close>

theorem empty_content_is_omitted:
  assumes "content m = JUndefined \<or> content m = JNull \<or> content m = JStr []"
  shows "buildConversation (xs @ Some m # ys) includePrompt =
           buildConversation (xs @ ys) includePrompt \<and>
         length (buildConversation (xs @ Some m # ys) True) < 1 + length (xs @ Some m # ys)"
proof -
  have f: "\<not> truthy (content m)"
    using assms by auto
  have e: "forEach_push conv (xs @ Some m # ys) = forEach_push conv (xs @ ys)" for conv
    using f by (simp add: forEach_push_append)
  have "length (buildConversation (xs @ ys) True) \<le> 1 + length (xs @ ys)"
    using forEach_push_length [of "[promptTurn]" "xs @ ys"]
    by (simp add: buildConversation_def promptTurn_def)
  then show ?thesis
    using e by (simp add: buildConversation_def)
qed

theorem empty_content_is_omitted_witness:
  "content \<lparr>role = JStr ''assistant'', content = JNull\<rparr> = JNull \<and>
   buildConversation
     ([Some \<lparr>role = JStr ''user'', content = JStr ''hi''\<rparr>] @
      Some \<lparr>role = JStr ''assistant'', content = JNull\<rparr> #
      [Some \<lparr>role = JStr ''user'', content = JStr ''more''\<rparr>]) True =
   buildConversation
     ([Some \<lparr>role = JStr ''user'', content = JStr ''hi''\<rparr>] @
      [Some \<lparr>role = JStr ''user'', content = JStr ''more''\<rparr>]) True \<and>
   length (buildConversation
     ([Some \<lparr>role = JStr ''user'', content = JStr ''hi''\<rparr>] @
      Some \<lparr>role = JStr ''assistant'', content = JNull\<rparr> #
      [Some \<lparr>role = JStr ''user'', content = JStr ''more''\<rparr>]) True) = 3"
proof -
  have c: "content \<lparr>role = JStr ''assistant'', content = JNull\<rparr> = JUndefined \<or>
           content \<lparr>role = JStr ''assistant'', content = JNull\<rparr> = JNull \<or>
           content \<lparr>role = JStr ''assistant'', content = JNull\<rparr> = JStr []"
    by simp
  have l: "length (buildConversation
     ([Some \<lparr>role = JStr ''user'', content = JStr ''hi''\<rparr>] @
      Some \<lparr>role = JStr ''assistant'', content = JNull\<rparr> #
      [Some \<lparr>role = JStr ''user'', content = JStr ''more''\<rparr>]) True) = 3"
    by (simp add: buildConversation_def)
  show ?thesis
    using empty_content_is_omitted
      [OF c, of "[Some \<lparr>role = JStr ''user'', content = JStr ''hi''\<rparr>]"
                "[Some \<lparr>role = JStr ''user'', content = JStr ''more''\<rparr>]" True] l
    by simp
qed

section \<open>Classifying upstream errors\<close>

lemma createErrorMessage_firstMatch:
  "createErrorMessage error = firstMatch (orElse error ''Gemini API request failed.'')"
  by (simp add: createErrorMessage_def firstMatch_def classificationRules_def Let_def)

text \<open>
  C7, as amended. For every non-empty upstream error message, \<open>createErrorMessage\<close>
  returns what the ordered rules give on the lower-cased message: the invalid-credential
  guidance if it contains \<open>permission\<close>, \<open>unauthorized\<close> or \<open>api key\<close>; otherwise the
  quota guidance if it contains \<open>quota\<close>, \<open>billing\<close> or \<open>exceeded\<close>; otherwise the
  rate-limit guidance if it contains \<open>rate limit\<close>; otherwise the message unchanged.
\<close>

theorem classifier_first_match:
  assumes "m \<noteq> []"
  shows "createErrorMessage (Some m) = firstMatch m"
  using assms by (simp add: createErrorMessage_firstMatch orElse_def)

theorem classifier_first_match_witness:
  "''Quota exceeded for API Key'' \<noteq> [] \<and>
   createErrorMessage (Some ''Quota exceeded for API Key'') = firstMatch ''Quota exceeded for API Key'' \<and>
   createErrorMessage (Some ''Quota exceeded for API Key'') = INVALID_KEY_MESSAGE"
proof -
  have n: "''Quota exceeded for API Key'' \<noteq> []"
    by simp
  have v: "createErrorMessage (Some ''Quota exceeded for API Key'') = INVALID_KEY_MESSAGE"
    by (simp add: createErrorMessage_def orElse_def toLowerCase_def toLowerChar_def upperCaseLetters_def lowerCaseLetters_def startsWith_def)
  show ?thesis
    using classifier_first_match [OF n] v by simp
qed

text \<open>
  C7 as stated fails on the empty message: it contains none of the substrings, and what
  is returned is not the message but the fallback text.
\<close>

theorem classifier_empty_message:
  "firstMatch [] = [] \<and> createErrorMessage (Some []) = ''Gemini API request failed.''"
  by (simp add: createErrorMessage_def firstMatch_def classificationRules_def orElse_def
      toLowerCase_def toLowerChar_def upperCaseLetters_def lowerCaseLetters_def startsWith_def)

section \<open>Credential gating\<close>

lemma chat_without_credential_is_503:
  "chat_handler \<lparr>GEMINI_API_KEY = None\<rparr> typeError generateContent ms =
     \<lparr>response = \<lparr>status = 503,
                  body = ErrorBody ''Gemini is not configured''
                           (Some ''Add GEMINI_API_KEY to your .env to enable chat.'')\<rparr>,
      upstream_calls = []\<rparr>"
  by (simp add: chat_handler_def hasGeminiKey_def)

text \<open>
  C1. The chat endpoint answers 503 when the credential is unset (the lemma above). The
  quiz endpoint has no such check: with the credential unset, \<open>genAI\<close> is \<open>null\<close>, the
  call \<open>genAI.getGenerativeModel\<close> raises a TypeError inside the \<open>try\<close>, and the handler
  answers 500 with the classified TypeError message. No upstream call is made.
\<close>

theorem quiz_without_credential_is_500:
  "generate_quiz_handler \<lparr>GEMINI_API_KEY = None\<rparr> typeError generateContent parse t =
     \<lparr>response = \<lparr>status = 500,
                  body = ErrorBody ''Failed to generate quiz''
                           (Some (createErrorMessage (Some typeError)))\<rparr>,
      upstream_calls = []\<rparr>"
  by (simp add: generate_quiz_handler_def genAI_def hasGeminiKey_def)

section \<open>Submitting in the chat panel\<close>

lemma dropWhile_all_iff: "(\<forall>x \<in> set (dropWhile P xs). P x) = (dropWhile P xs = [])"
proof
  assume a: "\<forall>x \<in> set (dropWhile P xs). P x"
  show "dropWhile P xs = []"
  proof (rule ccontr)
    assume n: "dropWhile P xs \<noteq> []"
    then have "\<not> P (hd (dropWhile P xs))"
      by (rule hd_dropWhile)
    moreover have "hd (dropWhile P xs) \<in> set (dropWhile P xs)"
      using n by simp
    ultimately show False
      using a by blast
  qed
qed (auto dest: set_dropWhileD)

lemma trim_Nil_iff: "(trim s = []) = (\<forall>c \<in> set s. isWhitespace c)"
proof -
  have "(trim s = []) = (\<forall>x \<in> set (dropWhile isWhitespace s). isWhitespace x)"
    by (simp add: trim_def dropWhile_eq_Nil_conv)
  also have "\<dots> = (dropWhile isWhitespace s = [])"
    by (rule dropWhile_all_iff)
  also have "\<dots> = (\<forall>c \<in> set s. isWhitespace c)"
    by (simp add: dropWhile_eq_Nil_conv)
  finally show ?thesis .
qed

lemma last_trim: "trim s \<noteq> [] \<Longrightarrow> \<not> isWhitespace (last (trim s))"
  by (simp add: trim_def last_rev hd_dropWhile)

lemma toLowerChar_space: "toLowerChar c = CHR '' '' \<Longrightarrow> c = CHR '' ''"
  by (simp add: toLowerChar_def upperCaseLetters_def lowerCaseLetters_def split: if_splits)

lemma isSearchInput_shape:
  assumes "isSearchInput inp"
  shows "8 \<le> length (trim inp) \<and> trim inp ! 7 = CHR '' ''"
proof -
  let ?t = "trim inp"
  have "take (length ''/search '') (toLowerCase ?t) = ''/search ''"
    using assms by (simp only: isSearchInput_def startsWith_def)
  moreover have "length ''/search '' = 8"
    by simp
  ultimately have t: "take 8 (map toLowerChar ?t) = ''/search ''"
    by (simp only: toLowerCase_def)
  then have "length (take 8 (map toLowerChar ?t)) = 8"
    by simp
  then have len: "8 \<le> length ?t"
    by simp
  have "take 8 (map toLowerChar ?t) ! 7 = CHR '' ''"
    by (simp only: t) simp
  then have "toLowerChar (?t ! 7) = CHR '' ''"
    using len by simp
  then show ?thesis
    using len by (simp add: toLowerChar_space)
qed

lemma searchQuery_nonempty:
  assumes "isSearchInput inp"
  shows "searchQueryOf inp \<noteq> []"
proof -
  let ?t = "trim inp"
  have len: "8 \<le> length ?t" and sp: "?t ! 7 = CHR '' ''"
    using isSearchInput_shape [OF assms] by simp_all
  have ne: "?t \<noteq> []"
    using len by auto
  have nw: "\<not> isWhitespace (last ?t)"
    using last_trim [OF ne] .
  have "isWhitespace (?t ! 7)"
    by (simp add: sp isWhitespace_def)
  then have "last ?t \<noteq> ?t ! 7"
    using nw by auto
  then have "length ?t \<noteq> 8"
    using ne by (auto simp: last_conv_nth)
  then have d: "drop 8 ?t \<noteq> []"
    using len by simp
  then have "last (drop 8 ?t) = last ?t"
    by simp
  then have "last ?t \<in> set (drop 8 ?t)"
    using d last_in_set by metis
  then have "trim (drop 8 ?t) \<noteq> []"
    using nw by (auto simp: trim_Nil_iff)
  then show ?thesis
    using assms by (simp add: searchQueryOf_def)
qed

lemma isSearchInput_nonblank: "isSearchInput inp \<Longrightarrow> trim inp \<noteq> []"
  using isSearchInput_shape [of inp] by auto

text \<open>The no-break space is white space for \<open>trim\<close>, and accented capitals are lowered.\<close>

lemma no_break_space_is_trimmed:
  "trim ([CHR 0xA0] @ ''/search foo'' @ [CHR 0xA0]) = ''/search foo'' \<and>
   isSearchInput ([CHR 0xA0] @ ''/search foo'' @ [CHR 0xA0]) \<and>
   searchQueryOf ([CHR 0xA0] @ ''/search foo'' @ [CHR 0xA0]) = ''foo''"
proof -
  have t: "trim ([CHR 0xA0] @ ''/search foo'' @ [CHR 0xA0]) = ''/search foo''"
    by (simp add: trim_def isWhitespace_def)
  have s: "isSearchInput ([CHR 0xA0] @ ''/search foo'' @ [CHR 0xA0])"
    unfolding isSearchInput_def t
    by (simp add: startsWith_def toLowerCase_def toLowerChar_def upperCaseLetters_def
        lowerCaseLetters_def)
  have "trim ''foo'' = ''foo''"
    by (simp add: trim_def isWhitespace_def)
  then have "searchQueryOf ([CHR 0xA0] @ ''/search foo'' @ [CHR 0xA0]) = ''foo''"
    unfolding searchQueryOf_def t using s by simp
  then show ?thesis
    using t s by simp
qed

lemma no_break_space_input_is_blank:
  "chat_handleSubmit \<lparr>messages = T, input = [CHR 0xA0], isLoading = False\<rparr> fetch = Ignored"
  by (simp add: chat_handleSubmit_def trim_def isWhitespace_def)

lemma no_break_space_query_is_missing:
  "search_handler e wikipedia (Some [CHR 0xA0]) =
     \<lparr>response = \<lparr>status = 400, body = ErrorBody ''Missing query parameter q'' None\<rparr>,
      upstream_calls = []\<rparr>"
  by (simp add: search_handler_def orElse_def trim_def isWhitespace_def)

lemma accented_capital_is_lowered: "toLowerCase (''/SEARCH '' @ [CHR 0xC9]) = ''/search '' @ [CHR 0xE9]"
  by (simp add: toLowerCase_def toLowerChar_def upperCaseLetters_def lowerCaseLetters_def)

lemma trim_search_blank: "trim ''/search  '' = ''/search''"
  by (simp add: trim_def isWhitespace_def)

text \<open>
  C3. The input \<open>/search\<close> followed by two spaces is not recognised as a search: the test
  for the prefix \<open>/search \<close> (with its space) is made on the trimmed input, which is
  \<open>/search\<close>. The input goes to the chat endpoint as an ordinary message.
\<close>

theorem blank_search_goes_to_chat:
  "isSearchInput ''/search  '' = False \<and>
   sent (chat_handleSubmit \<lparr>messages = T, input = ''/search  '', isLoading = False\<rparr> fetch) =
     [PostChat (T @ [\<lparr>role = JStr ''user'', content = JStr ''/search  ''\<rparr>])]"
proof -
  have s: "isSearchInput ''/search  '' = False"
    by (simp add: isSearchInput_def trim_search_blank startsWith_def toLowerCase_def)
  have m: "map (\<lambda>msg. \<lparr>role = role msg, content = content msg\<rparr>) xs = xs" for xs :: "chat_message list"
    by (induction xs) simp_all
  show ?thesis
    by (simp add: s chat_handleSubmit_def trim_search_blank tryBlock_def Let_def m
        split: fetch_outcome.split)
qed

lemma same_fields: "map (\<lambda>msg. \<lparr>role = role msg, content = content msg\<rparr>) xs = xs"
  for xs :: "chat_message list"
  by (induction xs) simp_all

lemma includesStr_append: "includesStr (xs @ ys) ys"
proof (induction xs)
  case Nil
  show ?case by (cases ys) (simp_all add: startsWith_def)
next
  case (Cons x xs)
  then show ?case by simp
qed

text \<open>
  C9, as amended. For every transcript and every input that is not blank (not empty
  after trimming), submitted while no request is in flight and not a search command:
  exactly one user entry holding the input is appended before the chat request is sent
  (the request carries the transcript with it), and after a successful response exactly
  one assistant entry is appended.
\<close>

theorem chat_submit_appends_one_each:
  assumes "trim (input st) \<noteq> []"
      and "\<not> isLoading st"
      and "\<not> isSearchInput (input st)"
  shows "\<exists>fin.
           chat_handleSubmit st fetch =
             Ran \<lparr>messages = messages st @ [\<lparr>role = JStr ''user'', content = JStr (input st)\<rparr>],
                  input = [], isLoading = True\<rparr>
                 [PostChat (messages st @ [\<lparr>role = JStr ''user'', content = JStr (input st)\<rparr>])]
                 fin \<and>
           (\<forall>resp.
              fetch (PostChat (messages st @ [\<lparr>role = JStr ''user'', content = JStr (input st)\<rparr>])) =
                FetchReplied resp \<and> ok resp \<longrightarrow>
              fin = \<lparr>messages = messages st @
                                  [\<lparr>role = JStr ''user'', content = JStr (input st)\<rparr>,
                                   \<lparr>role = JStr ''assistant'', content = responseField (body resp)\<rparr>],
                     input = [], isLoading = False\<rparr>)"
  using assms
  by (auto simp: chat_handleSubmit_def tryBlock_def Let_def same_fields
      split: fetch_outcome.split)

theorem chat_submit_appends_one_each_witness:
  "trim (input example_idle) \<noteq> [] \<and> \<not> isLoading example_idle \<and>
   \<not> isSearchInput (input example_idle) \<and>
   ok \<lparr>status = 200, body = ChatBody ''Hello''\<rparr> \<and>
   pending (chat_handleSubmit example_idle fetch_hello) =
     \<lparr>messages = [\<lparr>role = JStr ''assistant'', content = JStr ''Hi''\<rparr>,
                  \<lparr>role = JStr ''user'', content = JStr ''What is DNS?''\<rparr>],
      input = [], isLoading = True\<rparr> \<and>
   sent (chat_handleSubmit example_idle fetch_hello) =
     [PostChat [\<lparr>role = JStr ''assistant'', content = JStr ''Hi''\<rparr>,
                \<lparr>role = JStr ''user'', content = JStr ''What is DNS?''\<rparr>]] \<and>
   settled (chat_handleSubmit example_idle fetch_hello) =
     \<lparr>messages = [\<lparr>role = JStr ''assistant'', content = JStr ''Hi''\<rparr>,
                  \<lparr>role = JStr ''user'', content = JStr ''What is DNS?''\<rparr>,
                  \<lparr>role = JStr ''assistant'', content = JStr ''Hello''\<rparr>],
      input = [], isLoading = False\<rparr>"
proof -
  have t: "trim (input example_idle) = ''What is DNS?''"
    by (simp add: example_idle_def trim_def isWhitespace_def)
  have a: "trim (input example_idle) \<noteq> []"
    by (simp add: t)
  have b: "\<not> isLoading example_idle"
    by (simp add: example_idle_def)
  have c: "\<not> isSearchInput (input example_idle)"
    by (simp add: isSearchInput_def t startsWith_def toLowerCase_def toLowerChar_def upperCaseLetters_def lowerCaseLetters_def)
  have o: "ok \<lparr>status = 200, body = ChatBody ''Hello''\<rparr>"
    by (simp add: ok_def)
  have f: "fetch_hello req = FetchReplied \<lparr>status = 200, body = ChatBody ''Hello''\<rparr>" for req
    by (simp add: fetch_hello_def)
  from chat_submit_appends_one_each [OF a b c, of fetch_hello] f o
  have "chat_handleSubmit example_idle fetch_hello =
          Ran \<lparr>messages = messages example_idle @ [\<lparr>role = JStr ''user'', content = JStr (input example_idle)\<rparr>],
               input = [], isLoading = True\<rparr>
              [PostChat (messages example_idle @ [\<lparr>role = JStr ''user'', content = JStr (input example_idle)\<rparr>])]
              \<lparr>messages = messages example_idle @
                                  [\<lparr>role = JStr ''user'', content = JStr (input example_idle)\<rparr>,
                                   \<lparr>role = JStr ''assistant'', content = responseField (body \<lparr>status = 200, body = ChatBody ''Hello''\<rparr>)\<rparr>],
                     input = [], isLoading = False\<rparr>"
    by auto
  then show ?thesis
    using a b c o by (simp add: example_idle_def responseField_def)
qed

text \<open>
  C9 as stated fails on a non-empty input of white space only: the handler returns at
  once, nothing is appended and nothing is sent.
\<close>

theorem blank_input_is_ignored:
  "'' '' \<noteq> [] \<and>
   chat_handleSubmit \<lparr>messages = [], input = '' '', isLoading = False\<rparr> fetch_unreachable = Ignored"
  by (simp add: chat_handleSubmit_def trim_def isWhitespace_def)

section \<open>Searching without results\<close>

lemma search_zero_hits_response:
  assumes "upstream_calls (search_handler e wikipedia q) = [WikiSearch query]"
      and "wikipedia query = WikiReplied True errorMessage (Some [])"
  shows "response (search_handler e wikipedia q) = \<lparr>status = 200, body = SearchBody []\<rparr>"
proof -
  have nb: "trim (orElse q []) \<noteq> []" and k: "hasGeminiKey e"
    using assms(1) by (auto simp: search_handler_def Let_def split: if_splits)
  have "query = trim (orElse q [])"
    using assms(1) nb k
    by (auto simp: search_handler_def Let_def split: if_splits wiki_outcome.splits)
  then show ?thesis
    using assms(2) nb k by (simp add: search_handler_def Let_def)
qed

lemma search_no_results_submit:
  assumes "\<not> isLoading st"
      and "isSearchInput (input st)"
      and "fetch (GetSearch (searchQueryOf (input st))) =
             FetchReplied \<lparr>status = 200, body = SearchBody []\<rparr>"
  shows "chat_handleSubmit st fetch =
           Ran \<lparr>messages = messages st @ [\<lparr>role = JStr ''user'', content = JStr (input st)\<rparr>],
                input = [], isLoading = True\<rparr>
               [GetSearch (searchQueryOf (input st))]
               \<lparr>messages = messages st @
                   [\<lparr>role = JStr ''user'', content = JStr (input st)\<rparr>,
                    \<lparr>role = JStr ''assistant'',
                     content = JStr (noResultsText (searchQueryOf (input st)))\<rparr>],
                input = [], isLoading = False\<rparr>"
proof -
  have nb: "trim (input st) \<noteq> []"
    using assms(2) by (rule isSearchInput_nonblank)
  have q: "searchQueryOf (input st) \<noteq> []"
    using assms(2) by (rule searchQuery_nonempty)
  have t: "tryBlock (messages st) \<lparr>role = JStr ''user'', content = JStr (input st)\<rparr> True
             (searchQueryOf (input st)) fetch =
           ([GetSearch (searchQueryOf (input st))],
            Inr \<lparr>role = JStr ''assistant'',
                 content = JStr (noResultsText (searchQueryOf (input st)))\<rparr>)"
    using q assms(3)
    by (simp add: tryBlock_def Let_def ok_def formatResults_def noResultsText_def)
  show ?thesis
    using nb assms(1,2) by (simp add: chat_handleSubmit_def Let_def t)
qed

text \<open>
  C5. When the search endpoint's call to the encyclopedia is made and succeeds with zero
  hits, the endpoint answers 200 with an empty result list; and the chat panel that
  receives this answer to its search request appends one assistant entry, which contains
  the text \<open>No results found.\<close> and is not the error entry.
\<close>

theorem zero_hits_render_no_results:
  assumes "upstream_calls (search_handler e wikipedia q) = [WikiSearch query]"
      and "wikipedia query = WikiReplied True errorMessage (Some [])"
      and "\<not> isLoading st"
      and "isSearchInput (input st)"
      and "fetch (GetSearch (searchQueryOf (input st))) =
             FetchReplied (response (search_handler e wikipedia q))"
  shows "response (search_handler e wikipedia q) = \<lparr>status = 200, body = SearchBody []\<rparr> \<and>
         chat_handleSubmit st fetch =
           Ran \<lparr>messages = messages st @ [\<lparr>role = JStr ''user'', content = JStr (input st)\<rparr>],
                input = [], isLoading = True\<rparr>
               [GetSearch (searchQueryOf (input st))]
               \<lparr>messages = messages st @
                   [\<lparr>role = JStr ''user'', content = JStr (input st)\<rparr>,
                    \<lparr>role = JStr ''assistant'',
                     content = JStr (noResultsText (searchQueryOf (input st)))\<rparr>],
                input = [], isLoading = False\<rparr> \<and>
         includesStr (noResultsText (searchQueryOf (input st))) ''No results found.'' \<and>
         \<not> startsWith (noResultsText (searchQueryOf (input st))) ''Sorry, I encountered an error''"
proof -
  have r: "response (search_handler e wikipedia q) = \<lparr>status = 200, body = SearchBody []\<rparr>"
    using assms(1,2) by (rule search_zero_hits_response)
  have s: "chat_handleSubmit st fetch =
           Ran \<lparr>messages = messages st @ [\<lparr>role = JStr ''user'', content = JStr (input st)\<rparr>],
                input = [], isLoading = True\<rparr>
               [GetSearch (searchQueryOf (input st))]
               \<lparr>messages = messages st @
                   [\<lparr>role = JStr ''user'', content = JStr (input st)\<rparr>,
                    \<lparr>role = JStr ''assistant'',
                     content = JStr (noResultsText (searchQueryOf (input st)))\<rparr>],
                input = [], isLoading = False\<rparr>"
    using assms(3,4) assms(5) [unfolded r] by (rule search_no_results_submit)
  have i: "includesStr (noResultsText (searchQueryOf (input st))) ''No results found.''"
    unfolding noResultsText_def append_assoc [symmetric] by (rule includesStr_append)
  have n: "\<not> startsWith (noResultsText (searchQueryOf (input st))) ''Sorry, I encountered an error''"
    by (simp add: noResultsText_def startsWith_def)
  show ?thesis
    using r s i n by simp
qed

lemma example_search_query: "searchQueryOf ''/search zq'' = ''zq'' \<and> isSearchInput ''/search zq''"
proof -
  have t: "trim ''/search zq'' = ''/search zq''"
    by (simp add: trim_def isWhitespace_def)
  have s: "isSearchInput ''/search zq''"
    by (simp add: isSearchInput_def t startsWith_def toLowerCase_def toLowerChar_def upperCaseLetters_def lowerCaseLetters_def)
  have "trim ''zq'' = ''zq''"
    by (simp add: trim_def isWhitespace_def)
  then show ?thesis
    using s by (simp add: searchQueryOf_def t)
qed

theorem zero_hits_render_no_results_witness:
  "upstream_calls (search_handler example_env wikipedia_no_hits (Some ''zq'')) = [WikiSearch ''zq''] \<and>
   wikipedia_no_hits ''zq'' = WikiReplied True None (Some []) \<and>
   \<not> isLoading example_searching \<and>
   isSearchInput (input example_searching) \<and>
   fetch_from_server (GetSearch (searchQueryOf (input example_searching))) =
     FetchReplied (response (search_handler example_env wikipedia_no_hits (Some ''zq''))) \<and>
   response (search_handler example_env wikipedia_no_hits (Some ''zq'')) =
     \<lparr>status = 200, body = SearchBody []\<rparr> \<and>
   settled (chat_handleSubmit example_searching fetch_from_server) =
     \<lparr>messages = [\<lparr>role = JStr ''user'', content = JStr ''/search zq''\<rparr>,
                  \<lparr>role = JStr ''assistant'',
                   content = JStr ''Here are the top results for \"zq\":\<newline>\<newline>No results found.''\<rparr>],
      input = [], isLoading = False\<rparr>"
proof -
  have t: "trim ''zq'' = ''zq''"
    by (simp add: trim_def isWhitespace_def)
  have a: "upstream_calls (search_handler example_env wikipedia_no_hits (Some ''zq'')) = [WikiSearch ''zq'']"
    by (simp add: search_handler_def orElse_def t example_env_def hasGeminiKey_def
        wikipedia_no_hits_def)
  have b: "wikipedia_no_hits ''zq'' = WikiReplied True None (Some [])"
    by (simp add: wikipedia_no_hits_def)
  have c: "\<not> isLoading example_searching"
    by (simp add: example_searching_def)
  have d: "isSearchInput (input example_searching)"
    using example_search_query by (simp add: example_searching_def)
  have q: "searchQueryOf (input example_searching) = ''zq''"
    using example_search_query by (simp add: example_searching_def)
  have f: "fetch_from_server (GetSearch (searchQueryOf (input example_searching))) =
             FetchReplied (response (search_handler example_env wikipedia_no_hits (Some ''zq'')))"
    by (simp add: q fetch_from_server_def)
  show ?thesis
    using zero_hits_render_no_results
      [where e = example_env and wikipedia = wikipedia_no_hits and q = "Some ''zq''"
         and query = "''zq''" and errorMessage = None and st = example_searching
         and fetch = fetch_from_server, OF a b c d f] a b c d f
    by (simp add: example_search_query noResultsText_def example_searching_def)
qed

section \<open>Normalising search hits\<close>




















lemma every_title_has_parts:
  "\<exists>w gs trailing. s = titleOf w gs trailing \<and> titleParts w gs trailing"
proof (induction s)
  case Nil
  have "[] = titleOf [] [] [] \<and> titleParts [] [] []"
    by (simp add: titleOf_def titleParts_def)
  then show ?case by blast
next
  case (Cons c s)
  then obtain w gs trailing where s: "s = titleOf w gs trailing" and p: "titleParts w gs trailing"
    by blast
  show ?case
  proof (cases "isWhitespace c")
    case False
    then have "c # s = titleOf (c # w) gs trailing \<and> titleParts (c # w) gs trailing"
      using s p by (simp add: titleOf_def titleParts_def)
    then show ?thesis by blast
  next
    case True
    show ?thesis
    proof (cases w)
      case (Cons a w')
      then have "c # s = titleOf [] (([c], w) # gs) trailing \<and>
                 titleParts [] (([c], w) # gs) trailing"
        using s p True by (simp add: titleOf_def titleParts_def isGap_def isWord_def)
      then show ?thesis by blast
    next
      case Nil
      show ?thesis
      proof (cases gs)
        case Nil
        then have "c # s = titleOf [] [] (c # trailing) \<and> titleParts [] [] (c # trailing)"
          using s p True \<open>w = []\<close> by (simp add: titleOf_def titleParts_def)
        then show ?thesis by blast
      next
        case (Cons gv gs')
        obtain g v where gv: "gv = (g, v)" by (cases gv)
        have "c # s = titleOf [] ((c # g, v) # gs') trailing \<and>
              titleParts [] ((c # g, v) # gs') trailing"
          using s p True \<open>w = []\<close> Cons gv by (simp add: titleOf_def titleParts_def isGap_def)
        then show ?thesis by blast
      qed
    qed
  qed
qed




section \<open>Scoring\<close>

lemma countCorrect_filter:
  "countCorrect a qs i c =
     c + length (filter (\<lambda>(j, q). answerAt a j = correctAnswer q) (zip [i..<i + length qs] qs))"
proof (induction qs arbitrary: i c)
  case Nil
  show ?case by simp
next
  case (Cons q qs)
  have "[i..<i + length (q # qs)] = i # [Suc i..<Suc i + length qs]"
    by (simp add: upt_rec)
  then show ?case
    using Cons.IH [of "Suc i"] by simp
qed

lemma countCorrect_card:
  "countCorrect a qs 0 0 = card {i. i < length qs \<and> answerAt a i = correctAnswer (qs ! i)}"
proof -
  let ?P = "\<lambda>(j, q). answerAt a j = correctAnswer q"
  let ?zs = "zip [0..<length qs] qs"
  have "countCorrect a qs 0 0 = length (filter ?P ?zs)"
    using countCorrect_filter [of a qs 0 0] by simp
  also have "\<dots> = card {i. i < length ?zs \<and> ?P (?zs ! i)}"
    by (rule length_filter_conv_card)
  also have "{i. i < length ?zs \<and> ?P (?zs ! i)} =
             {i. i < length qs \<and> answerAt a i = correctAnswer (qs ! i)}"
    by auto
  finally show ?thesis .
qed

lemma answerAt_defined:
  "v \<noteq> JUndefined \<Longrightarrow> (answerAt a i = v) = (\<exists>k. a i = Some k \<and> JNum (int k) = v)"
  by (cases "a i") (auto simp: answerAt_def)

text \<open>
  C2. For a quiz whose questions all carry a \<open>correctAnswer\<close>, the score that
  \<open>handleSubmit\<close> stores is the number of question indices \<open>i\<close> (below the number of
  questions) whose answer is defined and equal to the correct answer of question \<open>i\<close>.
  An index without an answer, and an answer stored under an index beyond the quiz, is
  not in the counted set.
\<close>

theorem score_counts_matching_answers:
  assumes "questions s = Some Q"
      and "\<not> submitted s"
      and "\<forall>q \<in> set Q. correctAnswer q \<noteq> JUndefined"
  shows "score (quiz_handleSubmit s) =
           Some (card {i. i < length Q \<and>
                          (\<exists>k. answers s i = Some k \<and> JNum (int k) = correctAnswer (Q ! i))})"
proof -
  have "{i. i < length Q \<and> answerAt (answers s) i = correctAnswer (Q ! i)} =
        {i. i < length Q \<and> (\<exists>k. answers s i = Some k \<and> JNum (int k) = correctAnswer (Q ! i))}"
    using assms(3) by (auto simp: answerAt_defined)
  then show ?thesis
    using assms(1,2) by (simp add: quiz_handleSubmit_def countCorrect_card)
qed

lemma example_quiz_indices:
  "{i. i < length example_quiz \<and>
       (\<exists>k. answers example_ready i = Some k \<and> JNum (int k) = correctAnswer (example_quiz ! i))} = {0}"
proof -
  have "i < 2 \<Longrightarrow> i = 0 \<or> i = 1" for i :: nat by arith
  then show ?thesis
    by (auto simp: example_quiz_def example_ready_def)
qed

theorem score_counts_matching_answers_witness:
  "questions example_ready = Some example_quiz \<and> \<not> submitted example_ready \<and>
   correctAnswer (example_quiz ! 0) \<noteq> JUndefined \<and> correctAnswer (example_quiz ! 1) \<noteq> JUndefined \<and>
   score (quiz_handleSubmit example_ready) = Some 1"
proof -
  have q: "questions example_ready = Some example_quiz"
    by (simp add: example_ready_def)
  have n: "\<not> submitted example_ready"
    by (simp add: example_ready_def)
  have d: "\<forall>q \<in> set example_quiz. correctAnswer q \<noteq> JUndefined"
    by (simp add: example_quiz_def)
  have "score (quiz_handleSubmit example_ready) = Some (card {0::nat})"
    using score_counts_matching_answers [OF q n d] by (simp only: example_quiz_indices)
  then show ?thesis
    using q n by (simp add: example_quiz_def)
qed

section \<open>The submitted quiz is frozen\<close>

text \<open>
  C4. Once \<open>submitted\<close> is true, selecting an answer leaves the state (so the answer
  set) as it is, and submitting again leaves the state (so the score) as it is.
\<close>

theorem submitted_state_is_frozen:
  assumes "submitted s"
  shows "handleAnswerChange s questionIndex answerIndex = s \<and> quiz_handleSubmit s = s"
  using assms by (simp add: handleAnswerChange_def quiz_handleSubmit_def split: option.split)

theorem submitted_state_is_frozen_witness:
  "submitted example_submitted \<and>
   answers (handleAnswerChange example_submitted 1 3) = answers example_submitted \<and>
   score (quiz_handleSubmit example_submitted) = score example_submitted \<and>
   score example_submitted = Some 1"
proof -
  have s: "submitted example_submitted"
    by (simp add: example_submitted_def example_ready_def quiz_handleSubmit_def)
  have "score example_submitted = Some 1"
    by (simp add: example_submitted_def example_ready_def example_quiz_def
        quiz_handleSubmit_def answerAt_def)
  then show ?thesis
    using s submitted_state_is_frozen [OF s, of 1 3] by simp
qed

end
